theory Spec2Isabelle
  imports Complex_Main "HOL-Library.AList"
begin

section \<open>SMAD mission data model: the evaluation engine\<close>

text \<open>
  A shallow embedding of \<^verbatim>\<open>src/newmodel/smad_data_model.py\<close>. Dataclasses are
  records, enumerations are datatypes, a raised exception is the \<open>Inl\<close> branch of a sum,
  and a method that assigns to \<^verbatim>\<open>self\<close> returns the updated record. Python's
  \<^verbatim>\<open>float\<close> is idealised as \<open>real\<close>: an input is a finite number (no NaN, no
  infinity), and comparisons and operations give their exact result, without rounding
  error. Where a method can raise because a double has a bounded range (the constructor of
  an orbit), that range is part of the model. Fields of a class that no modelled method
  reads or writes are left out of its record.
\<close>

subsection \<open>Enumerations\<close>

datatype ComparisonOperator =
  LESS_THAN | LESS_THAN_OR_EQUAL | EQUAL | GREATER_THAN_OR_EQUAL | GREATER_THAN
  | BETWEEN | NOT_EQUAL

text \<open>The \<^verbatim>\<open>.value\<close> of a member of \<^verbatim>\<open>ComparisonOperator\<close>.\<close>

fun ComparisonOperator_value :: "ComparisonOperator \<Rightarrow> string" where
  "ComparisonOperator_value LESS_THAN = ''<''"
| "ComparisonOperator_value LESS_THAN_OR_EQUAL = ''<=''"
| "ComparisonOperator_value EQUAL = ''==''"
| "ComparisonOperator_value GREATER_THAN_OR_EQUAL = ''>=''"
| "ComparisonOperator_value GREATER_THAN = ''>''"
| "ComparisonOperator_value BETWEEN = ''between''"
| "ComparisonOperator_value NOT_EQUAL = ''!=''"

datatype Unit =
  METERS | KILOMETERS | CENTIMETERS | MILLIMETERS | MICROMETERS
  | SECONDS | MINUTES | HOURS | DAYS | YEARS
  | BITS | BYTES | MEGABYTES | GIGABYTES | TERABYTES
  | MEGABITS_PER_SECOND | GIGABITS_PER_SECOND
  | KILOGRAMS | GRAMS | TONNES | WATTS | KILOWATTS | USD | EUR
  | DEGREES | RADIANS | NANOMETERS | DECIBELS | PERCENT | COUNT | UNITLESS

datatype Priority = CRITICAL | HIGH | MEDIUM | LOW

datatype ObjectiveStatus =
  NOT_EVALUATED | BELOW_THRESHOLD | THRESHOLD_MET | BASELINE_MET | TARGET_MET | EXCEEDED

datatype AggregationMethod =
  MINIMUM | MAXIMUM | AVERAGE | WEIGHTED_AVERAGE | MEDIAN | SUM | PRODUCT | CUSTOM

datatype SolutionStatus =
  PROPOSED | UNDER_EVALUATION | REQUIREMENTS_MET | REQUIREMENTS_NOT_MET | SELECTED
  | REJECTED

subsection \<open>Exceptions\<close>

text \<open>
  \<^verbatim>\<open>ValueError\<close> carries its message. \<^verbatim>\<open>TypeError\<close> is what Python raises
  when an ordering comparison meets \<^verbatim>\<open>None\<close>, \<^verbatim>\<open>ZeroDivisionError\<close> what a
  float division by zero raises, \<^verbatim>\<open>OverflowError\<close> what a float power raises when
  its result is too large for a double.
\<close>

datatype error = ValueError string | TypeError | ZeroDivisionError | OverflowError

subsection \<open>NumericConstraintValue\<close>

record NumericConstraintValue =
  ncv_operator :: ComparisonOperator
  ncv_value :: "real option"
  ncv_min_value :: "real option"
  ncv_max_value :: "real option"
  ncv_unit :: Unit

text \<open>
  \<^verbatim>\<open>__post_init__\<close> runs at the end of the generated constructor; what it raises
  leaves the constructor, so the caller receives either the object or the exception.
\<close>

definition NumericConstraintValue_post_init ::
  "NumericConstraintValue \<Rightarrow> error + NumericConstraintValue" where
  "NumericConstraintValue_post_init c =
     (if ncv_operator c = BETWEEN then
        (case (ncv_min_value c, ncv_max_value c) of
           (Some lo, Some hi) \<Rightarrow>
             if lo \<ge> hi then Inl (ValueError ''min_value must be < max_value'')
             else Inr c
         | _ \<Rightarrow> Inl (ValueError ''BETWEEN requires min_value and max_value''))
      else
        (case ncv_value c of
           None \<Rightarrow> Inl (ValueError (ComparisonOperator_value (ncv_operator c) @ '' requires a value''))
         | Some v \<Rightarrow> Inr c))"

text \<open>
  An ordering comparison of a float with \<^verbatim>\<open>None\<close> raises \<^verbatim>\<open>TypeError\<close>;
  \<^verbatim>\<open>==\<close> and \<^verbatim>\<open>!=\<close> with \<^verbatim>\<open>None\<close> answer \<^verbatim>\<open>False\<close> and
  \<^verbatim>\<open>True\<close>. The chained comparison of \<^verbatim>\<open>between\<close> reads
  \<^verbatim>\<open>max_value\<close> only when its first half holds.
\<close>

definition cmp_with :: "(real \<Rightarrow> real \<Rightarrow> bool) \<Rightarrow> real \<Rightarrow> real option \<Rightarrow> error + bool" where
  "cmp_with rel x ov = (case ov of None \<Rightarrow> Inl TypeError | Some v \<Rightarrow> Inr (rel x v))"

definition NumericConstraintValue_evaluate ::
  "NumericConstraintValue \<Rightarrow> real \<Rightarrow> error + bool" where
  "NumericConstraintValue_evaluate c test_value =
     (if ncv_operator c = LESS_THAN then cmp_with (<) test_value (ncv_value c)
      else if ncv_operator c = LESS_THAN_OR_EQUAL then cmp_with (\<le>) test_value (ncv_value c)
      else if ncv_operator c = EQUAL then Inr (Some test_value = ncv_value c)
      else if ncv_operator c = GREATER_THAN_OR_EQUAL then cmp_with (\<ge>) test_value (ncv_value c)
      else if ncv_operator c = GREATER_THAN then cmp_with (>) test_value (ncv_value c)
      else if ncv_operator c = BETWEEN then
        (case ncv_min_value c of
           None \<Rightarrow> Inl TypeError
         | Some lo \<Rightarrow>
             if lo \<le> test_value then cmp_with (\<le>) test_value (ncv_max_value c)
             else Inr False)
      else if ncv_operator c = NOT_EQUAL then Inr (Some test_value \<noteq> ncv_value c)
      else Inr False)"

subsection \<open>Orbit\<close>

text \<open>
  The fields \<^verbatim>\<open>EARTH_RADIUS\<close> and \<^verbatim>\<open>EARTH_MU\<close> are declared
  \<^verbatim>\<open>field(default=..., init=False)\<close>: the constructor cannot be given another
  value, so they are constants when \<^verbatim>\<open>__post_init__\<close> runs. The epoch, the
  mission-specific fields and the property dictionary are not read by it.
\<close>

definition EARTH_RADIUS :: real where
  "EARTH_RADIUS = 6378.137"

definition EARTH_MU :: real where
  "EARTH_MU = 398600.4418"

record Orbit =
  orbit_id :: string
  orbit_name :: string
  orbit_label :: string
  semi_major_axis :: real
  eccentricity :: real
  inclination :: real
  raan :: real
  argument_of_perigee :: real
  true_anomaly :: real
  altitude :: "real option"
  perigee_altitude :: "real option"
  apogee_altitude :: "real option"
  orbital_period :: "real option"
  mean_motion :: "real option"

text \<open>
  The range of a double under rounding to nearest: a result whose exact magnitude reaches
  \<open>2\<^sup>1\<^sup>0\<^sup>2\<^sup>4 - 2\<^sup>9\<^sup>7\<^sup>0\<close> (half a unit in the last place above the largest double) is
  infinite, and one whose exact magnitude is at most \<open>2\<^sup>-\<^sup>1\<^sup>0\<^sup>7\<^sup>5\<close> (half the smallest
  positive double) is a zero. In between, the model keeps the exact value.
\<close>

definition float_overflows :: "real \<Rightarrow> bool" where
  "float_overflows x \<longleftrightarrow> \<bar>x\<bar> \<ge> 2 ^ 1024 - 2 ^ 970"

definition float_underflow :: "real \<Rightarrow> real" where
  "float_underflow x = (if \<bar>x\<bar> \<le> 1 / 2 ^ 1075 then 0 else x)"

text \<open>
  \<^verbatim>\<open>x ** 3\<close> on a float raises \<^verbatim>\<open>OverflowError\<close> when the result is too large,
  and gives a zero when it is too small.
\<close>

definition float_cube :: "real \<Rightarrow> error + real" where
  "float_cube x = (if float_overflows (x ^ 3) then Inl OverflowError
                   else Inr (float_underflow (x ^ 3)))"

text \<open>
  The three blocks of \<^verbatim>\<open>__post_init__\<close>, in the order of the source: the altitude of
  a circular orbit, written only when the caller supplied none; the perigee and apogee of
  an eccentric one; the period and the mean motion.
\<close>

definition derive_altitude :: "Orbit \<Rightarrow> Orbit" where
  "derive_altitude orb =
     (if eccentricity orb < 0.001 \<and> altitude orb = None
      then orb\<lparr>altitude := Some (semi_major_axis orb - EARTH_RADIUS)\<rparr>
      else orb)"

definition derive_apsides :: "Orbit \<Rightarrow> Orbit" where
  "derive_apsides orb =
     (if eccentricity orb > 0
      then orb\<lparr>perigee_altitude :=
                 Some (semi_major_axis orb * (1 - eccentricity orb) - EARTH_RADIUS),
               apogee_altitude :=
                 Some (semi_major_axis orb * (1 + eccentricity orb) - EARTH_RADIUS)\<rparr>
      else orb)"

text \<open>
  The quotient by \<^verbatim>\<open>EARTH_MU\<close> can underflow to a zero but not overflow.
  \<^verbatim>\<open>math.sqrt\<close> raises \<^verbatim>\<open>ValueError\<close> on a negative argument and maps a zero of
  either sign to itself, and the division \<^verbatim>\<open>1440 / self.orbital_period\<close> raises
  \<^verbatim>\<open>ZeroDivisionError\<close> when the period is a zero. A square root of a positive
  double is far from the ends of the range, so the period and the mean motion neither
  overflow nor underflow.
\<close>

definition derive_period :: "Orbit \<Rightarrow> error + Orbit" where
  "derive_period orb =
     (case float_cube (semi_major_axis orb) of
        Inl e \<Rightarrow> Inl e
      | Inr a3 \<Rightarrow>
          (let q = float_underflow (a3 / EARTH_MU)
           in if q < 0 then Inl (ValueError ''math domain error'')
              else
                (let p = 2 * pi * sqrt q / 60;
                     o3 = orb\<lparr>orbital_period := Some p\<rparr>
                 in if p = 0 then Inl ZeroDivisionError
                    else Inr (o3\<lparr>mean_motion := Some (1440 / p)\<rparr>))))"

definition Orbit_post_init :: "Orbit \<Rightarrow> error + Orbit" where
  "Orbit_post_init orb = derive_period (derive_apsides (derive_altitude orb))"

subsection \<open>PayloadInstrument\<close>

text \<open>The optical and detector parameters that the derived-formula methods use.\<close>

record PayloadInstrument =
  focal_length :: real
  aperture_diameter :: real
  f_number :: real
  detector_array_size_across_track :: int
  pixel_pitch :: real
  ground_sample_distance :: real
  swath_width :: real

text \<open>The method stores the result in the instrument and returns it.\<close>

definition calculate_gsd_from_orbit ::
  "PayloadInstrument \<Rightarrow> real \<Rightarrow> real \<times> PayloadInstrument" where
  "calculate_gsd_from_orbit p altitude_km =
     (let p' = (if focal_length p > 0 \<and> pixel_pitch p > 0
                then (let altitude_m = altitude_km * 1000
                      in p\<lparr>ground_sample_distance :=
                             (altitude_m * pixel_pitch p * (1 / 10 ^ 6)) / focal_length p\<rparr>)
                else p)
      in (ground_sample_distance p', p'))"

subsection \<open>PerformanceThreshold and KeyPerformanceIndicator\<close>

record PerformanceThreshold =
  pt_level :: string
  pt_value :: real
  pt_unit :: Unit
  pt_operator :: ComparisonOperator
  pt_description :: string

definition PerformanceThreshold_evaluate :: "PerformanceThreshold \<Rightarrow> real \<Rightarrow> bool" where
  "PerformanceThreshold_evaluate t actual_value =
     (if pt_operator t = LESS_THAN then actual_value < pt_value t
      else if pt_operator t = LESS_THAN_OR_EQUAL then actual_value \<le> pt_value t
      else if pt_operator t = EQUAL then actual_value = pt_value t
      else if pt_operator t = GREATER_THAN_OR_EQUAL then actual_value \<ge> pt_value t
      else if pt_operator t = GREATER_THAN then actual_value > pt_value t
      else if pt_operator t = NOT_EQUAL then actual_value \<noteq> pt_value t
      else False)"

text \<open>
  \<^verbatim>\<open>str.lower\<close> on the ASCII letters; every other character is kept. The three
  level names the code asks for are ASCII, and no character outside ASCII lowers to an
  ASCII letter of these names, so the comparison in \<^verbatim>\<open>get_threshold\<close> is decided
  as in Python.
\<close>

definition lower_char :: "char \<Rightarrow> char" where
  "lower_char c =
     (if (65::nat) \<le> of_char c \<and> of_char c \<le> (90::nat)
      then char_of (of_char c + (32::nat)) else c)"

definition lower :: "string \<Rightarrow> string" where
  "lower s = map lower_char s"

record KeyPerformanceIndicator =
  kpi_id :: string
  kpi_name :: string
  kpi_description :: string
  kpi_unit :: Unit
  thresholds :: "PerformanceThreshold list"
  measurement_method :: string
  data_sources :: "string list"
  aggregation_method :: AggregationMethod
  weight :: real
  current_value :: "real option"
  kpi_status :: ObjectiveStatus
  kpi_notes :: string

text \<open>The first threshold of the list whose level matches, or \<^verbatim>\<open>None\<close>.\<close>

definition get_threshold ::
  "KeyPerformanceIndicator \<Rightarrow> string \<Rightarrow> PerformanceThreshold option" where
  "get_threshold k level = find (\<lambda>t. lower (pt_level t) = lower level) (thresholds k)"

text \<open>
  \<^verbatim>\<open>target and target.evaluate(actual_value)\<close>: an instance of the dataclass is
  truthy, so the conjunction is false exactly when the tier is absent or its own
  comparison fails.
\<close>

definition tier_holds :: "PerformanceThreshold option \<Rightarrow> real \<Rightarrow> bool" where
  "tier_holds tier actual_value =
     (case tier of None \<Rightarrow> False | Some t \<Rightarrow> PerformanceThreshold_evaluate t actual_value)"

definition evaluate_performance ::
  "KeyPerformanceIndicator \<Rightarrow> real \<Rightarrow> ObjectiveStatus \<times> KeyPerformanceIndicator" where
  "evaluate_performance k actual_value =
     (let k1 = k\<lparr>current_value := Some actual_value\<rparr>;
          target = get_threshold k1 ''target'';
          baseline = get_threshold k1 ''baseline'';
          threshold = get_threshold k1 ''threshold'';
          k2 = (if tier_holds target actual_value then k1\<lparr>kpi_status := TARGET_MET\<rparr>
                else if tier_holds baseline actual_value then k1\<lparr>kpi_status := BASELINE_MET\<rparr>
                else if tier_holds threshold actual_value then k1\<lparr>kpi_status := THRESHOLD_MET\<rparr>
                else k1\<lparr>kpi_status := BELOW_THRESHOLD\<rparr>)
      in (kpi_status k2, k2))"

subsection \<open>Objectives\<close>

record QuantitativeObjective =
  qo_id :: string
  qualitative_objective_id :: string
  qo_title :: string
  qo_description :: string
  kpis :: "KeyPerformanceIndicator list"
  success_criteria :: string
  minimum_threshold :: string
  derived_requirements :: "string list"
  qo_priority :: Priority
  qo_notes :: string

record MissionObjective =
  mo_id :: string
  mo_title :: string
  mo_description :: string
  mo_priority :: Priority
  category :: string
  stakeholders :: "string list"
  quantitative_objectives :: "QuantitativeObjective list"
  mo_notes :: string

text \<open>The dictionary \<^verbatim>\<open>status_values\<close> and \<^verbatim>\<open>dict.get(key, default)\<close>.\<close>

definition status_values :: "(ObjectiveStatus \<times> int) list" where
  "status_values =
     [(EXCEEDED, 5), (TARGET_MET, 4), (BASELINE_MET, 3), (THRESHOLD_MET, 2),
      (BELOW_THRESHOLD, 1), (NOT_EVALUATED, 0)]"

definition dict_get :: "('k \<times> 'v) list \<Rightarrow> 'k \<Rightarrow> 'v \<Rightarrow> 'v" where
  "dict_get d k dflt = (case map_of d k of None \<Rightarrow> dflt | Some v \<Rightarrow> v)"

text \<open>\<^verbatim>\<open>status_values.get(status, 0)\<close>, the rank of a status.\<close>

definition status_rank :: "ObjectiveStatus \<Rightarrow> int" where
  "status_rank s = dict_get status_values s 0"

text \<open>
  The loop of both \<^verbatim>\<open>evaluate_objective\<close> methods over the statuses of the
  children, with the running \<^verbatim>\<open>min_status\<close> and \<^verbatim>\<open>min_value\<close>.
\<close>

fun min_status_loop :: "ObjectiveStatus list \<Rightarrow> ObjectiveStatus \<Rightarrow> int \<Rightarrow> ObjectiveStatus" where
  "min_status_loop [] min_status min_value = min_status"
| "min_status_loop (s # ss) min_status min_value =
     (let v = status_rank s
      in if v < min_value then min_status_loop ss s v
         else min_status_loop ss min_status min_value)"

definition QuantitativeObjective_evaluate_objective ::
  "QuantitativeObjective \<Rightarrow> ObjectiveStatus" where
  "QuantitativeObjective_evaluate_objective q =
     (if kpis q = [] then NOT_EVALUATED
      else min_status_loop (map kpi_status (kpis q)) EXCEEDED 6)"

definition MissionObjective_evaluate_objective :: "MissionObjective \<Rightarrow> ObjectiveStatus" where
  "MissionObjective_evaluate_objective m =
     (if quantitative_objectives m = [] then NOT_EVALUATED
      else min_status_loop
             (map QuantitativeObjective_evaluate_objective (quantitative_objectives m))
             EXCEEDED 6)"

subsection \<open>Solution evaluation\<close>

text \<open>
  A reading of the clock. \<^verbatim>\<open>strftime('%Y%m%d%H%M%S')\<close> writes the six fields
  zero-padded (four digits for a year from 1000 on).
\<close>

record datetime =
  dt_year :: nat
  dt_month :: nat
  dt_day :: nat
  dt_hour :: nat
  dt_minute :: nat
  dt_second :: nat

definition digit_char :: "nat \<Rightarrow> char" where
  "digit_char n = char_of (48 + n mod 10)"

definition digits2 :: "nat \<Rightarrow> string" where
  "digits2 n = [digit_char (n div 10), digit_char n]"

definition digits4 :: "nat \<Rightarrow> string" where
  "digits4 n = [digit_char (n div 1000), digit_char (n div 100), digit_char (n div 10), digit_char n]"

definition strftime_YmdHMS :: "datetime \<Rightarrow> string" where
  "strftime_YmdHMS t =
     digits4 (dt_year t) @ digits2 (dt_month t) @ digits2 (dt_day t) @
     digits2 (dt_hour t) @ digits2 (dt_minute t) @ digits2 (dt_second t)"

record DesignSolution =
  ds_id :: string
  ds_name :: string
  ds_label :: string
  ds_status :: SolutionStatus
  ds_created_date :: datetime
  ds_notes :: string

record KPIEvaluation =
  ke_kpi_id :: string
  ke_kpi_name :: string
  ke_calculated_value :: real
  ke_unit :: Unit
  ke_status :: ObjectiveStatus
  ke_threshold_met :: bool
  ke_baseline_met :: bool
  ke_target_met :: bool
  ke_notes :: string

record RequirementVerification =
  rv_requirement_id :: string
  rv_requirement_title :: string
  rv_required_value :: string
  rv_calculated_value :: real
  rv_unit :: Unit
  rv_verified :: bool
  rv_margin :: real
  rv_notes :: string

record ConstraintVerification =
  cv_constraint_id :: string
  cv_constraint_title :: string
  cv_constraint_value :: string
  cv_calculated_value :: real
  cv_unit :: Unit
  cv_verified :: bool
  cv_margin :: real
  cv_is_negotiable :: bool
  cv_notes :: string

record FOMEvaluation =
  fe_fom_id :: string
  fe_fom_name :: string
  fe_calculated_value :: real
  fe_target_value :: "real option"
  fe_meets_target :: bool
  fe_contributing_kpis :: "(string \<times> real) list"
  fe_notes :: string

text \<open>
  A dictionary is an association list in insertion order with one entry per key:
  \<^verbatim>\<open>d[k] = v\<close> is \<^const>\<open>AList.update\<close>, which replaces the value of a key in
  place and appends a new key; \<^verbatim>\<open>d.values()\<close> is \<open>map snd\<close> and
  \<^verbatim>\<open>len(d)\<close> the length.
\<close>

record SolutionEvaluation =
  se_id :: string
  se_solution_id :: string
  se_solution_label :: string
  evaluation_date :: datetime
  kpi_evaluations :: "(string \<times> KPIEvaluation) list"
  fom_evaluations :: "(string \<times> FOMEvaluation) list"
  requirement_verifications :: "(string \<times> RequirementVerification) list"
  constraint_verifications :: "(string \<times> ConstraintVerification) list"
  all_requirements_met :: bool
  all_critical_constraints_met :: bool
  overall_status :: SolutionStatus
  kpi_success_rate :: real
  requirement_success_rate :: real
  constraint_success_rate :: real
  summary_notes :: string
  strengths :: "string list"
  weaknesses :: "string list"
  recommendations :: "string list"

text \<open>
  The generated constructor called with the three positional fields; every other field
  takes its default, the evaluation date a reading of the clock.
\<close>

definition SolutionEvaluation_init ::
  "string \<Rightarrow> string \<Rightarrow> string \<Rightarrow> datetime \<Rightarrow> SolutionEvaluation" where
  "SolutionEvaluation_init eid sid slabel now =
     \<lparr>se_id = eid, se_solution_id = sid, se_solution_label = slabel,
      evaluation_date = now,
      kpi_evaluations = [], fom_evaluations = [],
      requirement_verifications = [], constraint_verifications = [],
      all_requirements_met = False, all_critical_constraints_met = False,
      overall_status = UNDER_EVALUATION,
      kpi_success_rate = 0, requirement_success_rate = 0, constraint_success_rate = 0,
      summary_notes = [], strengths = [], weaknesses = [], recommendations = []\<rparr>"

definition add_kpi_evaluation :: "SolutionEvaluation \<Rightarrow> KPIEvaluation \<Rightarrow> SolutionEvaluation" where
  "add_kpi_evaluation e kpi_eval =
     e\<lparr>kpi_evaluations := AList.update (ke_kpi_id kpi_eval) kpi_eval (kpi_evaluations e)\<rparr>"

definition add_fom_evaluation :: "SolutionEvaluation \<Rightarrow> FOMEvaluation \<Rightarrow> SolutionEvaluation" where
  "add_fom_evaluation e fom_eval =
     e\<lparr>fom_evaluations := AList.update (fe_fom_id fom_eval) fom_eval (fom_evaluations e)\<rparr>"

definition add_requirement_verification ::
  "SolutionEvaluation \<Rightarrow> RequirementVerification \<Rightarrow> SolutionEvaluation" where
  "add_requirement_verification e req_ver =
     e\<lparr>requirement_verifications :=
         AList.update (rv_requirement_id req_ver) req_ver (requirement_verifications e)\<rparr>"

definition add_constraint_verification ::
  "SolutionEvaluation \<Rightarrow> ConstraintVerification \<Rightarrow> SolutionEvaluation" where
  "add_constraint_verification e const_ver =
     e\<lparr>constraint_verifications :=
         AList.update (cv_constraint_id const_ver) const_ver (constraint_verifications e)\<rparr>"

text \<open>
  \<^verbatim>\<open>calculate_success_rates\<close>, one block per dictionary; an empty dictionary is
  falsy and its block is skipped, and so is the inner block when no constraint
  verification is non-negotiable.
\<close>

definition calc_kpi_block :: "SolutionEvaluation \<Rightarrow> SolutionEvaluation" where
  "calc_kpi_block e =
     (if kpi_evaluations e \<noteq> [] then
        (let kpi_success = length (filter ke_threshold_met (map snd (kpi_evaluations e)))
         in e\<lparr>kpi_success_rate :=
                (real kpi_success / real (length (kpi_evaluations e))) * 100\<rparr>)
      else e)"

definition calc_requirement_block :: "SolutionEvaluation \<Rightarrow> SolutionEvaluation" where
  "calc_requirement_block e =
     (if requirement_verifications e \<noteq> [] then
        (let req_success = length (filter rv_verified (map snd (requirement_verifications e)))
         in e\<lparr>requirement_success_rate :=
                (real req_success / real (length (requirement_verifications e))) * 100,
              all_requirements_met :=
                (req_success = length (requirement_verifications e))\<rparr>)
      else e)"

definition calc_constraint_block :: "SolutionEvaluation \<Rightarrow> SolutionEvaluation" where
  "calc_constraint_block e =
     (if constraint_verifications e \<noteq> [] then
        (let const_success = length (filter cv_verified (map snd (constraint_verifications e)));
             e1 = e\<lparr>constraint_success_rate :=
                      (real const_success / real (length (constraint_verifications e))) * 100\<rparr>;
             critical_constraints =
               filter (\<lambda>c. \<not> cv_is_negotiable c) (map snd (constraint_verifications e1))
         in if critical_constraints \<noteq> [] then
              (let critical_met = length (filter cv_verified critical_constraints)
               in e1\<lparr>all_critical_constraints_met :=
                       (critical_met = length critical_constraints)\<rparr>)
            else e1)
      else e)"

definition calculate_success_rates :: "SolutionEvaluation \<Rightarrow> SolutionEvaluation" where
  "calculate_success_rates e = calc_constraint_block (calc_requirement_block (calc_kpi_block e))"

definition determine_overall_status :: "SolutionEvaluation \<Rightarrow> SolutionEvaluation" where
  "determine_overall_status e =
     (let e1 = calculate_success_rates e
      in if all_requirements_met e1 \<and> all_critical_constraints_met e1
         then e1\<lparr>overall_status := REQUIREMENTS_MET\<rparr>
         else if \<not> all_requirements_met e1 \<or> \<not> all_critical_constraints_met e1
         then e1\<lparr>overall_status := REQUIREMENTS_NOT_MET\<rparr>
         else e1)"

subsection \<open>Mission\<close>

text \<open>
  The objectives, requirements, constraints and design iterations of a mission are not
  touched by the methods below.
\<close>

record Mission =
  mission_id :: string
  mission_name :: string
  mission_description :: string
  mission_type :: string
  design_solutions :: "DesignSolution list"
  solution_evaluations :: "(string \<times> SolutionEvaluation) list"
  baseline_solution_id :: "string option"
  selected_solution_id :: "string option"
  created_date :: datetime
  last_modified :: datetime

definition get_design_solution :: "Mission \<Rightarrow> string \<Rightarrow> DesignSolution option" where
  "get_design_solution m solution_id = find (\<lambda>sol. ds_id sol = solution_id) (design_solutions m)"

text \<open>
  \<^verbatim>\<open>evaluate_solution\<close> reads the clock three times: for the evaluation id, for
  the default evaluation date, and for \<^verbatim>\<open>last_modified\<close>. It returns the new
  evaluation and the mission as it leaves it.
\<close>

definition evaluate_solution ::
  "Mission \<Rightarrow> string \<Rightarrow> datetime \<Rightarrow> datetime \<Rightarrow> datetime
     \<Rightarrow> error + (SolutionEvaluation \<times> Mission)" where
  "evaluate_solution m solution_id now1 now2 now3 =
     (case get_design_solution m solution_id of
        None \<Rightarrow> Inl (ValueError (''Solution '' @ solution_id @ '' not found''))
      | Some solution \<Rightarrow>
          (let eval_id = ''EVAL-'' @ solution_id @ ''-'' @ strftime_YmdHMS now1;
               evaluation = SolutionEvaluation_init eval_id (ds_id solution) (ds_label solution) now2
           in Inr (evaluation,
                   m\<lparr>solution_evaluations :=
                       AList.update (ds_id solution) evaluation (solution_evaluations m),
                     last_modified := now3\<rparr>)))"

text \<open>The one method of \<^verbatim>\<open>Mission\<close> that assigns to the status of a solution.\<close>

definition set_selected_solution :: "Mission \<Rightarrow> string \<Rightarrow> datetime \<Rightarrow> Mission" where
  "set_selected_solution m solution_id now =
     (case get_design_solution m solution_id of
        None \<Rightarrow> m
      | Some solution \<Rightarrow>
          m\<lparr>selected_solution_id := Some solution_id,
            design_solutions :=
              (case List.extract (\<lambda>sol. ds_id sol = solution_id) (design_solutions m) of
                 None \<Rightarrow> design_solutions m
               | Some (before, sol, after) \<Rightarrow> before @ sol\<lparr>ds_status := SELECTED\<rparr> # after),
            last_modified := now\<rparr>)"

subsection \<open>Refinement target for construction\<close>

text \<open>
  The malformed operator/value shapes as the specification lists them: \<^verbatim>\<open>between\<close>
  with a bound missing, \<^verbatim>\<open>between\<close> with \<^verbatim>\<open>min_value >= max_value\<close>, any
  other operator with \<^verbatim>\<open>value\<close> missing.
\<close>

definition spec_malformed_shape :: "NumericConstraintValue \<Rightarrow> bool" where
  "spec_malformed_shape c =
     ((ncv_operator c = BETWEEN \<and> (ncv_min_value c = None \<or> ncv_max_value c = None))
      \<or> (ncv_operator c = BETWEEN \<and>
           (case (ncv_min_value c, ncv_max_value c) of
              (Some lo, Some hi) \<Rightarrow> lo \<ge> hi
            | _ \<Rightarrow> False))
      \<or> (ncv_operator c \<noteq> BETWEEN \<and> ncv_value c = None))"

subsection \<open>Demonstration data\<close>

text \<open>
  Objects of the demonstration script \<^verbatim>\<open>src/newmodel/test_model.py\<close> and small
  variations of them, used to run the model on concrete inputs.
\<close>

definition ncv_between :: "real \<Rightarrow> real \<Rightarrow> NumericConstraintValue" where
  "ncv_between lo hi =
     \<lparr>ncv_operator = BETWEEN, ncv_value = None, ncv_min_value = Some lo,
      ncv_max_value = Some hi, ncv_unit = KILOMETERS\<rparr>"

definition tier :: "string \<Rightarrow> ComparisonOperator \<Rightarrow> real \<Rightarrow> PerformanceThreshold" where
  "tier lvl opr v =
     \<lparr>pt_level = lvl, pt_value = v, pt_unit = METERS, pt_operator = opr,
      pt_description = []\<rparr>"

definition kpi_with :: "PerformanceThreshold list \<Rightarrow> ObjectiveStatus \<Rightarrow> KeyPerformanceIndicator" where
  "kpi_with ts st =
     \<lparr>kpi_id = ''KPI-001'', kpi_name = ''Ground Sample Distance'', kpi_description = [],
      kpi_unit = METERS, thresholds = ts, measurement_method = [], data_sources = [],
      aggregation_method = AVERAGE, weight = 1, current_value = None, kpi_status = st,
      kpi_notes = []\<rparr>"

definition kpi_gsd :: KeyPerformanceIndicator where
  "kpi_gsd =
     kpi_with [tier ''threshold'' LESS_THAN_OR_EQUAL 30, tier ''baseline'' LESS_THAN_OR_EQUAL 15,
               tier ''target'' LESS_THAN_OR_EQUAL 10] NOT_EVALUATED"

definition kpi_between :: KeyPerformanceIndicator where
  "kpi_between = kpi_with [tier ''target'' BETWEEN 10] NOT_EVALUATED"

definition qo_with :: "KeyPerformanceIndicator list \<Rightarrow> QuantitativeObjective" where
  "qo_with ks =
     \<lparr>qo_id = ''QOBJ-001'', qualitative_objective_id = ''OBJ-001'', qo_title = [],
      qo_description = [], kpis = ks, success_criteria = [], minimum_threshold = [],
      derived_requirements = [], qo_priority = MEDIUM, qo_notes = []\<rparr>"

definition mo_with :: "QuantitativeObjective list \<Rightarrow> MissionObjective" where
  "mo_with qs =
     \<lparr>mo_id = ''OBJ-001'', mo_title = [], mo_description = [], mo_priority = MEDIUM,
      category = [], stakeholders = [], quantitative_objectives = qs, mo_notes = []\<rparr>"

definition payload_15m :: PayloadInstrument where
  "payload_15m =
     \<lparr>focal_length = 1.85, aperture_diameter = 0.30, f_number = 0,
      detector_array_size_across_track = 14624, pixel_pitch = 13,
      ground_sample_distance = 0, swath_width = 0\<rparr>"

definition orbit_iter1 :: "real option \<Rightarrow> Orbit" where
  "orbit_iter1 alt =
     \<lparr>orbit_id = ''ORB-ITER1'', orbit_name = ''705km Sun-Synchronous Orbit'',
      orbit_label = ''Baseline: 705km SSO'', semi_major_axis = 6378.137 + 705,
      eccentricity = 0, inclination = 98.2, raan = 0, argument_of_perigee = 0,
      true_anomaly = 0, altitude = alt, perigee_altitude = None, apogee_altitude = None,
      orbital_period = None, mean_motion = None\<rparr>"

definition demo_time :: datetime where
  "demo_time =
     \<lparr>dt_year = 2025, dt_month = 1, dt_day = 15, dt_hour = 10, dt_minute = 30,
      dt_second = 0\<rparr>"

definition solution_iter1 :: DesignSolution where
  "solution_iter1 =
     \<lparr>ds_id = ''SOL-001'', ds_name = ''Baseline Design Solution'',
      ds_label = ''Baseline: 15m @ 705km'', ds_status = PROPOSED,
      ds_created_date = demo_time, ds_notes = []\<rparr>"

definition demo_kpi_evaluation :: KPIEvaluation where
  "demo_kpi_evaluation =
     \<lparr>ke_kpi_id = ''KPI-001'', ke_kpi_name = ''Ground Sample Distance'',
      ke_calculated_value = 5, ke_unit = METERS, ke_status = TARGET_MET,
      ke_threshold_met = True, ke_baseline_met = True, ke_target_met = True,
      ke_notes = []\<rparr>"

definition demo_requirement :: "bool \<Rightarrow> RequirementVerification" where
  "demo_requirement ok =
     \<lparr>rv_requirement_id = ''REQ-001'', rv_requirement_title = ''Spatial Resolution'',
      rv_required_value = ''<= 15.0 m'', rv_calculated_value = 5, rv_unit = METERS,
      rv_verified = ok, rv_margin = 10, rv_notes = []\<rparr>"

definition demo_constraint :: "string \<Rightarrow> bool \<Rightarrow> bool \<Rightarrow> ConstraintVerification" where
  "demo_constraint cid ok negotiable =
     \<lparr>cv_constraint_id = cid, cv_constraint_title = [], cv_constraint_value = [],
      cv_calculated_value = 0, cv_unit = KILOGRAMS, cv_verified = ok, cv_margin = 0,
      cv_is_negotiable = negotiable, cv_notes = []\<rparr>"

definition fresh_evaluation :: SolutionEvaluation where
  "fresh_evaluation =
     SolutionEvaluation_init ''EVAL-SOL-001-20250115103000'' ''SOL-001''
       ''Baseline: 15m @ 705km'' demo_time"

text \<open>One passing non-negotiable constraint and one failing negotiable constraint.\<close>

definition eval_gated :: SolutionEvaluation where
  "eval_gated =
     add_constraint_verification
       (add_constraint_verification fresh_evaluation (demo_constraint ''CON-001'' True False))
       (demo_constraint ''CON-002'' False True)"

text \<open>One failing negotiable constraint and no other.\<close>

definition eval_negotiable_failing :: SolutionEvaluation where
  "eval_negotiable_failing =
     add_constraint_verification fresh_evaluation (demo_constraint ''CON-002'' False True)"

text \<open>One verified requirement and one passing negotiable constraint.\<close>

definition eval_negotiable_only :: SolutionEvaluation where
  "eval_negotiable_only =
     add_constraint_verification
       (add_requirement_verification fresh_evaluation (demo_requirement True))
       (demo_constraint ''CON-002'' True True)"

text \<open>
  An evaluation whose rates were calculated while it held a passing non-negotiable
  constraint, and in which that constraint was then stored again under the same id as
  failing and negotiable. Its one requirement is verified.
\<close>

definition eval_restored :: SolutionEvaluation where
  "eval_restored =
     add_constraint_verification
       (calculate_success_rates
          (add_constraint_verification
             (add_requirement_verification fresh_evaluation (demo_requirement True))
             (demo_constraint ''CON-001'' True False)))
       (demo_constraint ''CON-001'' False True)"

text \<open>A mission that already holds an evaluation of its one solution, with one entry.\<close>

definition demo_mission :: Mission where
  "demo_mission =
     \<lparr>mission_id = ''M-1'', mission_name = ''GlobalWatch'', mission_description = [],
      mission_type = ''Earth Observation'',
      design_solutions = [solution_iter1],
      solution_evaluations =
        [(''SOL-001'', add_kpi_evaluation fresh_evaluation demo_kpi_evaluation)],
      baseline_solution_id = None, selected_solution_id = None,
      created_date = demo_time, last_modified = demo_time\<rparr>"

section \<open>Properties\<close>

subsection \<open>NumericConstraintValue\<close>

text \<open>
  Claim C5. For a NumericConstraintValue that its constructor returned, and every test
  value \<open>x\<close>, \<^verbatim>\<open>evaluate(x)\<close> returns (it does not raise) exactly the comparison of
  its operator: \<open>x < value\<close>, \<open>x \<le> value\<close>, \<open>x = value\<close>, \<open>x \<ge> value\<close>,
  \<open>x > value\<close>, \<open>x \<noteq> value\<close>, and \<open>min_value \<le> x \<le> max_value\<close> for
  \<^verbatim>\<open>between\<close>. The method assigns nothing, so its model returns the answer alone.
\<close>

theorem NumericConstraintValue_evaluate_comparator:
  assumes "NumericConstraintValue_post_init c = Inr c'"
  shows "(ncv_operator c' = LESS_THAN \<longrightarrow>
            (\<exists>v. ncv_value c' = Some v \<and> NumericConstraintValue_evaluate c' x = Inr (x < v)))
       \<and> (ncv_operator c' = LESS_THAN_OR_EQUAL \<longrightarrow>
            (\<exists>v. ncv_value c' = Some v \<and> NumericConstraintValue_evaluate c' x = Inr (x \<le> v)))
       \<and> (ncv_operator c' = EQUAL \<longrightarrow>
            (\<exists>v. ncv_value c' = Some v \<and> NumericConstraintValue_evaluate c' x = Inr (x = v)))
       \<and> (ncv_operator c' = GREATER_THAN_OR_EQUAL \<longrightarrow>
            (\<exists>v. ncv_value c' = Some v \<and> NumericConstraintValue_evaluate c' x = Inr (x \<ge> v)))
       \<and> (ncv_operator c' = GREATER_THAN \<longrightarrow>
            (\<exists>v. ncv_value c' = Some v \<and> NumericConstraintValue_evaluate c' x = Inr (x > v)))
       \<and> (ncv_operator c' = NOT_EQUAL \<longrightarrow>
            (\<exists>v. ncv_value c' = Some v \<and> NumericConstraintValue_evaluate c' x = Inr (x \<noteq> v)))
       \<and> (ncv_operator c' = BETWEEN \<longrightarrow>
            (\<exists>lo hi. ncv_min_value c' = Some lo \<and> ncv_max_value c' = Some hi \<and>
               NumericConstraintValue_evaluate c' x = Inr (lo \<le> x \<and> x \<le> hi)))"
  using assms
  by (auto simp: NumericConstraintValue_post_init_def NumericConstraintValue_evaluate_def
        cmp_with_def split: if_splits option.splits)

lemma ncv_between_constructed:
  "lo < hi \<Longrightarrow> NumericConstraintValue_post_init (ncv_between lo hi) = Inr (ncv_between lo hi)"
  by (simp add: NumericConstraintValue_post_init_def ncv_between_def)

theorem NumericConstraintValue_evaluate_comparator_witness:
  "NumericConstraintValue_post_init (ncv_between 500 800) = Inr (ncv_between 500 800)
   \<and> NumericConstraintValue_evaluate (ncv_between 500 800) 705 = Inr True
   \<and> NumericConstraintValue_evaluate (ncv_between 500 800) 900 = Inr False"
proof -
  have h: "NumericConstraintValue_post_init (ncv_between 500 800) = Inr (ncv_between 500 800)"
    by (rule ncv_between_constructed) simp
  from NumericConstraintValue_evaluate_comparator [OF h, of 705]
    NumericConstraintValue_evaluate_comparator [OF h, of 900] h
  show ?thesis by (simp add: ncv_between_def)
qed

text \<open>
  Claim C6. The constructor of NumericConstraintValue raises (a \<^verbatim>\<open>ValueError\<close>, and
  no object is returned) exactly when the operator/value shape is malformed, and returns
  the object as given otherwise.
\<close>

theorem NumericConstraintValue_post_init_fails_iff_malformed:
  "(spec_malformed_shape c \<longrightarrow> (\<exists>msg. NumericConstraintValue_post_init c = Inl (ValueError msg)))
   \<and> (\<not> spec_malformed_shape c \<longrightarrow> NumericConstraintValue_post_init c = Inr c)"
  by (auto simp: NumericConstraintValue_post_init_def spec_malformed_shape_def
        split: if_splits option.splits)

theorem NumericConstraintValue_post_init_fails_iff_malformed_witness:
  "spec_malformed_shape (ncv_between 800 500)
   \<and> NumericConstraintValue_post_init (ncv_between 800 500)
       = Inl (ValueError ''min_value must be < max_value'')
   \<and> \<not> spec_malformed_shape (ncv_between 500 800)
   \<and> NumericConstraintValue_post_init (ncv_between 500 800) = Inr (ncv_between 500 800)"
proof -
  have bad: "spec_malformed_shape (ncv_between 800 500)"
    and good: "\<not> spec_malformed_shape (ncv_between 500 800)"
    by (simp_all add: spec_malformed_shape_def ncv_between_def)
  have msg: "NumericConstraintValue_post_init (ncv_between 800 500)
       = Inl (ValueError ''min_value must be < max_value'')"
    by (simp add: NumericConstraintValue_post_init_def ncv_between_def)
  from NumericConstraintValue_post_init_fails_iff_malformed [of "ncv_between 500 800"] good
  have "NumericConstraintValue_post_init (ncv_between 500 800) = Inr (ncv_between 500 800)"
    by blast
  with bad good msg show ?thesis by blast
qed

subsection \<open>Tiered evaluation of a key performance indicator\<close>

lemma lower_target: "lower ''target'' = ''target''"
  by code_simp




lemma get_threshold_current_value:
  "get_threshold (k\<lparr>current_value := v\<rparr>) lvl = get_threshold k lvl"
  by (simp add: get_threshold_def)

lemma evaluate_performance_fst:
  "fst (evaluate_performance k x) =
     (if tier_holds (get_threshold k ''target'') x then TARGET_MET
      else if tier_holds (get_threshold k ''baseline'') x then BASELINE_MET
      else if tier_holds (get_threshold k ''threshold'') x then THRESHOLD_MET
      else BELOW_THRESHOLD)"
  by (simp add: evaluate_performance_def Let_def get_threshold_current_value)






text \<open>
  Claim C10. A PerformanceThreshold whose operator is \<^verbatim>\<open>between\<close> evaluates to
  \<^verbatim>\<open>False\<close> for every actual value, so a tier of a KPI that carries this operator is
  never the one \<^verbatim>\<open>evaluate_performance\<close> reports as met.
\<close>

theorem PerformanceThreshold_between_never_holds:
  assumes "pt_operator t = BETWEEN"
  shows "PerformanceThreshold_evaluate t x = False
     \<and> (get_threshold k ''target'' = Some t \<longrightarrow> fst (evaluate_performance k x) \<noteq> TARGET_MET)
     \<and> (get_threshold k ''baseline'' = Some t \<longrightarrow> fst (evaluate_performance k x) \<noteq> BASELINE_MET)
     \<and> (get_threshold k ''threshold'' = Some t \<longrightarrow> fst (evaluate_performance k x) \<noteq> THRESHOLD_MET)"
proof -
  from assms have f: "\<not> PerformanceThreshold_evaluate t x"
    by (simp add: PerformanceThreshold_evaluate_def)
  then show ?thesis
    by (simp add: evaluate_performance_fst tier_holds_def)
qed

theorem PerformanceThreshold_between_never_holds_witness:
  "pt_operator (tier ''target'' BETWEEN 10) = BETWEEN
   \<and> get_threshold kpi_between ''target'' = Some (tier ''target'' BETWEEN 10)
   \<and> PerformanceThreshold_evaluate (tier ''target'' BETWEEN 10) 10 = False
   \<and> fst (evaluate_performance kpi_between 10) \<noteq> TARGET_MET"
proof -
  have h: "pt_operator (tier ''target'' BETWEEN 10) = BETWEEN"
    by (simp add: tier_def)
  have g: "get_threshold kpi_between ''target'' = Some (tier ''target'' BETWEEN 10)"
    by (simp add: get_threshold_def kpi_between_def kpi_with_def tier_def lower_target)
  from PerformanceThreshold_between_never_holds [OF h, of 10 kpi_between] h g
  show ?thesis by blast
qed

subsection \<open>Aggregation of statuses into an objective\<close>

lemma status_rank_simps:
  "status_rank NOT_EVALUATED = 0" "status_rank BELOW_THRESHOLD = 1"
  "status_rank THRESHOLD_MET = 2" "status_rank BASELINE_MET = 3"
  "status_rank TARGET_MET = 4" "status_rank EXCEEDED = 5"
  by (simp_all add: status_rank_def status_values_def dict_get_def)

lemma status_rank_bounds: "0 \<le> status_rank s \<and> status_rank s \<le> 5"
  by (cases s) (simp_all add: status_rank_simps)

lemma status_rank_zero: "status_rank s = 0 \<longleftrightarrow> s = NOT_EVALUATED"
  by (cases s) (simp_all add: status_rank_simps)

text \<open>
  The loop either keeps the status it started with, when no element ranks below the
  running minimum, or ends on an element of the list of least rank.
\<close>

lemma min_status_loop_inv:
  "(min_status_loop ss ms mv = ms \<and> (\<forall>s\<in>set ss. mv \<le> status_rank s))
   \<or> (min_status_loop ss ms mv \<in> set ss \<and> status_rank (min_status_loop ss ms mv) < mv
       \<and> (\<forall>s\<in>set ss. status_rank (min_status_loop ss ms mv) \<le> status_rank s))"
proof (induction ss arbitrary: ms mv)
  case Nil
  show ?case by simp
next
  case (Cons s ss)
  show ?case
  proof (cases "status_rank s < mv")
    case True
    with Cons.IH [of s "status_rank s"] show ?thesis
      by (auto simp: Let_def)
  next
    case False
    with Cons.IH [of ms mv] show ?thesis
      by (auto simp: Let_def)
  qed
qed

lemma min_status_loop_min:
  assumes "ss \<noteq> []"
  shows "min_status_loop ss EXCEEDED 6 \<in> set ss
     \<and> (\<forall>s\<in>set ss. status_rank (min_status_loop ss EXCEEDED 6) \<le> status_rank s)"
proof -
  from assms obtain s where s: "s \<in> set ss" by (cases ss) auto
  have "\<not> (6 \<le> status_rank s)" using status_rank_bounds [of s] by simp
  with s min_status_loop_inv [of ss EXCEEDED 6] show ?thesis by blast
qed

lemma min_status_loop_not_evaluated:
  assumes "ss \<noteq> []"
  shows "min_status_loop ss EXCEEDED 6 = NOT_EVALUATED \<longleftrightarrow> NOT_EVALUATED \<in> set ss"
proof
  assume "min_status_loop ss EXCEEDED 6 = NOT_EVALUATED"
  with min_status_loop_min [OF assms] show "NOT_EVALUATED \<in> set ss" by simp
next
  assume ne: "NOT_EVALUATED \<in> set ss"
  with min_status_loop_min [OF assms]
  have "status_rank (min_status_loop ss EXCEEDED 6) \<le> 0"
    using status_rank_simps(1) by metis
  with status_rank_bounds [of "min_status_loop ss EXCEEDED 6"]
  have "status_rank (min_status_loop ss EXCEEDED 6) = 0" by simp
  then show "min_status_loop ss EXCEEDED 6 = NOT_EVALUATED" by (simp add: status_rank_zero)
qed

text \<open>
  Claim C4, as amended. Under the ranks \<^verbatim>\<open>not_evaluated\<close> 0, \<^verbatim>\<open>below_threshold\<close> 1,
  \<^verbatim>\<open>threshold_met\<close> 2, \<^verbatim>\<open>baseline_met\<close> 3, \<^verbatim>\<open>target_met\<close> 4,
  \<^verbatim>\<open>exceeded\<close> 5, \<^verbatim>\<open>evaluate_objective\<close> of a QuantitativeObjective with KPIs
  returns the status of one of its KPIs, of least rank among them, and that of a
  MissionObjective with quantitative objectives returns the result of one of them, of
  least rank. It returns \<^verbatim>\<open>not_evaluated\<close> exactly when there are no children or some
  child has the status \<^verbatim>\<open>not_evaluated\<close>.
\<close>

theorem evaluate_objective_minimum_rank:
  "status_rank NOT_EVALUATED = 0 \<and> status_rank BELOW_THRESHOLD = 1
   \<and> status_rank THRESHOLD_MET = 2 \<and> status_rank BASELINE_MET = 3
   \<and> status_rank TARGET_MET = 4 \<and> status_rank EXCEEDED = 5
   \<and> (kpis q \<noteq> [] \<longrightarrow>
        QuantitativeObjective_evaluate_objective q \<in> kpi_status ` set (kpis q)
        \<and> (\<forall>k\<in>set (kpis q).
             status_rank (QuantitativeObjective_evaluate_objective q) \<le> status_rank (kpi_status k)))
   \<and> (QuantitativeObjective_evaluate_objective q = NOT_EVALUATED \<longleftrightarrow>
        kpis q = [] \<or> NOT_EVALUATED \<in> kpi_status ` set (kpis q))
   \<and> (quantitative_objectives m \<noteq> [] \<longrightarrow>
        MissionObjective_evaluate_objective m
          \<in> QuantitativeObjective_evaluate_objective ` set (quantitative_objectives m)
        \<and> (\<forall>c\<in>set (quantitative_objectives m).
             status_rank (MissionObjective_evaluate_objective m)
               \<le> status_rank (QuantitativeObjective_evaluate_objective c)))
   \<and> (MissionObjective_evaluate_objective m = NOT_EVALUATED \<longleftrightarrow>
        quantitative_objectives m = []
        \<or> NOT_EVALUATED \<in> QuantitativeObjective_evaluate_objective ` set (quantitative_objectives m))"
proof -
  have q1: "kpis q \<noteq> [] \<longrightarrow>
        QuantitativeObjective_evaluate_objective q \<in> kpi_status ` set (kpis q)
        \<and> (\<forall>k\<in>set (kpis q).
             status_rank (QuantitativeObjective_evaluate_objective q) \<le> status_rank (kpi_status k))"
    using min_status_loop_min [of "map kpi_status (kpis q)"]
    by (simp add: QuantitativeObjective_evaluate_objective_def)
  have q2: "QuantitativeObjective_evaluate_objective q = NOT_EVALUATED \<longleftrightarrow>
        kpis q = [] \<or> NOT_EVALUATED \<in> kpi_status ` set (kpis q)"
    using min_status_loop_not_evaluated [of "map kpi_status (kpis q)"]
    by (simp add: QuantitativeObjective_evaluate_objective_def)
  have m1: "quantitative_objectives m \<noteq> [] \<longrightarrow>
        MissionObjective_evaluate_objective m
          \<in> QuantitativeObjective_evaluate_objective ` set (quantitative_objectives m)
        \<and> (\<forall>c\<in>set (quantitative_objectives m).
             status_rank (MissionObjective_evaluate_objective m)
               \<le> status_rank (QuantitativeObjective_evaluate_objective c))"
    using min_status_loop_min
      [of "map QuantitativeObjective_evaluate_objective (quantitative_objectives m)"]
    by (simp add: MissionObjective_evaluate_objective_def)
  have m2: "MissionObjective_evaluate_objective m = NOT_EVALUATED \<longleftrightarrow>
        quantitative_objectives m = []
        \<or> NOT_EVALUATED \<in> QuantitativeObjective_evaluate_objective ` set (quantitative_objectives m)"
    using min_status_loop_not_evaluated
      [of "map QuantitativeObjective_evaluate_objective (quantitative_objectives m)"]
    by (simp add: MissionObjective_evaluate_objective_def)
  from q1 q2 m1 m2 show ?thesis by (simp add: status_rank_simps)
qed

text \<open>
  A quantitative objective whose KPIs stand at \<^verbatim>\<open>target_met\<close> and
  \<^verbatim>\<open>threshold_met\<close> evaluates to \<^verbatim>\<open>threshold_met\<close>, and so does the mission
  objective that holds it.
\<close>

theorem evaluate_objective_minimum_rank_witness:
  "QuantitativeObjective_evaluate_objective
     (qo_with [kpi_with [] TARGET_MET, kpi_with [] THRESHOLD_MET]) = THRESHOLD_MET
   \<and> MissionObjective_evaluate_objective
       (mo_with [qo_with [kpi_with [] TARGET_MET, kpi_with [] THRESHOLD_MET]]) = THRESHOLD_MET"
proof -
  let ?q = "qo_with [kpi_with [] TARGET_MET, kpi_with [] THRESHOLD_MET]"
  let ?m = "mo_with [?q]"
  note T = evaluate_objective_minimum_rank [of ?q ?m]
  have ne: "kpis ?q \<noteq> []"
    by (simp add: qo_with_def)
  have img: "kpi_status ` set (kpis ?q) = {TARGET_MET, THRESHOLD_MET}"
    by (simp add: qo_with_def kpi_with_def)
  have mem: "kpi_with [] THRESHOLD_MET \<in> set (kpis ?q)"
    by (simp add: qo_with_def)
  have st: "kpi_status (kpi_with [] THRESHOLD_MET) = THRESHOLD_MET"
    by (simp add: kpi_with_def)
  have ms: "quantitative_objectives ?m = [?q]"
    by (simp add: mo_with_def)
  from T ne have A: "QuantitativeObjective_evaluate_objective ?q \<in> kpi_status ` set (kpis ?q)
      \<and> (\<forall>k\<in>set (kpis ?q).
            status_rank (QuantitativeObjective_evaluate_objective ?q) \<le> status_rank (kpi_status k))"
    by blast
  from A mem
  have "status_rank (QuantitativeObjective_evaluate_objective ?q)
          \<le> status_rank (kpi_status (kpi_with [] THRESHOLD_MET))"
    by blast
  with st have le: "status_rank (QuantitativeObjective_evaluate_objective ?q) \<le> 2"
    by (simp add: status_rank_simps)
  from A img have "QuantitativeObjective_evaluate_objective ?q = TARGET_MET
      \<or> QuantitativeObjective_evaluate_objective ?q = THRESHOLD_MET"
    by simp
  with le have q: "QuantitativeObjective_evaluate_objective ?q = THRESHOLD_MET"
    by (auto simp: status_rank_simps)
  have "quantitative_objectives ?m \<noteq> []"
    by (simp add: ms)
  with T have "MissionObjective_evaluate_objective ?m
      \<in> QuantitativeObjective_evaluate_objective ` set (quantitative_objectives ?m)"
    by blast
  with q have "MissionObjective_evaluate_objective ?m = THRESHOLD_MET"
    by (simp add: ms)
  with q show ?thesis by blast
qed

text \<open>
  Against C4 as stated: an objective with one KPI that was never evaluated has a child
  to aggregate and still returns \<^verbatim>\<open>not_evaluated\<close>.
\<close>

theorem evaluate_objective_not_evaluated_counterexample:
  "kpis (qo_with [kpi_gsd]) \<noteq> []
   \<and> QuantitativeObjective_evaluate_objective (qo_with [kpi_gsd]) = NOT_EVALUATED
   \<and> quantitative_objectives (mo_with [qo_with [kpi_gsd]]) \<noteq> []
   \<and> MissionObjective_evaluate_objective (mo_with [qo_with [kpi_gsd]]) = NOT_EVALUATED"
  by (simp add: QuantitativeObjective_evaluate_objective_def
      MissionObjective_evaluate_objective_def qo_with_def mo_with_def kpi_gsd_def kpi_with_def
      status_rank_simps)

subsection \<open>Success rates and the overall status of an evaluation\<close>

lemma length_filter_eq_iff: "length (filter P xs) = length xs \<longleftrightarrow> (\<forall>x\<in>set xs. P x)"
proof (induction xs)
  case Nil
  show ?case by simp
next
  case (Cons x xs)
  have "length (filter P xs) \<noteq> Suc (length xs)"
    using length_filter_le [of P xs] by linarith
  with Cons show ?case by simp
qed

lemma length_filter_conj_eq_iff:
  "length (filter (\<lambda>x. Q x \<and> P x) xs) = length (filter Q xs) \<longleftrightarrow> (\<forall>x\<in>set xs. Q x \<longrightarrow> P x)"
proof -
  have "filter P (filter Q xs) = filter (\<lambda>x. Q x \<and> P x) xs" by simp
  with length_filter_eq_iff [of P "filter Q xs"] show ?thesis by auto
qed

lemma calc_kpi_block_fields:
  "constraint_verifications (calc_kpi_block e) = constraint_verifications e"
  "requirement_verifications (calc_kpi_block e) = requirement_verifications e"
  "all_critical_constraints_met (calc_kpi_block e) = all_critical_constraints_met e"
  "all_requirements_met (calc_kpi_block e) = all_requirements_met e"
  by (simp_all add: calc_kpi_block_def Let_def)

lemma calc_requirement_block_fields:
  "constraint_verifications (calc_requirement_block e) = constraint_verifications e"
  "all_critical_constraints_met (calc_requirement_block e) = all_critical_constraints_met e"
  by (simp_all add: calc_requirement_block_def Let_def)

text \<open>
  The flag after the constraint block: untouched when no verification is non-negotiable,
  otherwise recomputed from the non-negotiable ones alone.
\<close>

lemma calc_constraint_block_flag:
  "all_critical_constraints_met (calc_constraint_block e) =
     (if filter (\<lambda>c. \<not> cv_is_negotiable c) (map snd (constraint_verifications e)) = []
      then all_critical_constraints_met e
      else (\<forall>c\<in>set (map snd (constraint_verifications e)).
              \<not> cv_is_negotiable c \<longrightarrow> cv_verified c))"
proof (cases "filter (\<lambda>c. \<not> cv_is_negotiable c) (map snd (constraint_verifications e)) = []")
  case True
  then show ?thesis by (simp add: calc_constraint_block_def Let_def)
next
  case False
  then have ne: "constraint_verifications e \<noteq> []" by auto
  from False ne show ?thesis
    by (simp add: calc_constraint_block_def Let_def comp_def length_filter_conj_eq_iff)
qed

lemma calculate_success_rates_flag:
  "all_critical_constraints_met (calculate_success_rates e) =
     (if filter (\<lambda>c. \<not> cv_is_negotiable c) (map snd (constraint_verifications e)) = []
      then all_critical_constraints_met e
      else (\<forall>c\<in>set (map snd (constraint_verifications e)).
              \<not> cv_is_negotiable c \<longrightarrow> cv_verified c))"
  by (simp only: calculate_success_rates_def calc_constraint_block_flag
      calc_requirement_block_fields calc_kpi_block_fields)

lemma determine_overall_status_flags:
  "all_critical_constraints_met (determine_overall_status e) =
     all_critical_constraints_met (calculate_success_rates e)"
  "all_requirements_met (determine_overall_status e) =
     all_requirements_met (calculate_success_rates e)"
  by (simp_all add: determine_overall_status_def Let_def)

lemma determine_overall_status_status:
  "overall_status (determine_overall_status e) =
     (if all_requirements_met (calculate_success_rates e)
         \<and> all_critical_constraints_met (calculate_success_rates e)
      then REQUIREMENTS_MET else REQUIREMENTS_NOT_MET)"
  by (simp add: determine_overall_status_def Let_def)

lemma demo_evaluations:
  "constraint_verifications eval_gated =
     [(''CON-001'', demo_constraint ''CON-001'' True False),
      (''CON-002'', demo_constraint ''CON-002'' False True)]"
  "constraint_verifications eval_negotiable_failing =
     [(''CON-002'', demo_constraint ''CON-002'' False True)]"
  "constraint_verifications eval_negotiable_only =
     [(''CON-002'', demo_constraint ''CON-002'' True True)]"
  "requirement_verifications eval_negotiable_only = [(''REQ-001'', demo_requirement True)]"
  "kpi_evaluations eval_negotiable_only = []"
  "all_critical_constraints_met eval_negotiable_failing = False"
  "all_critical_constraints_met eval_negotiable_only = False"
  by (simp_all add: eval_gated_def eval_negotiable_failing_def eval_negotiable_only_def
      add_constraint_verification_def add_requirement_verification_def fresh_evaluation_def
      SolutionEvaluation_init_def demo_constraint_def demo_requirement_def)

lemma demo_constraint_fields:
  "cv_is_negotiable (demo_constraint cid ok n) = n"
  "cv_verified (demo_constraint cid ok n) = ok"
  by (simp_all add: demo_constraint_def)

text \<open>
  Claim C2, as amended. When an evaluation holds at least one non-negotiable constraint
  verification and every non-negotiable one is verified,
  \<^verbatim>\<open>all_critical_constraints_met\<close> is true after \<^verbatim>\<open>calculate_success_rates\<close>
  and after \<^verbatim>\<open>determine_overall_status\<close>, whatever the negotiable ones say.
\<close>

theorem critical_constraints_gate:
  assumes "filter (\<lambda>c. \<not> cv_is_negotiable c) (map snd (constraint_verifications e)) \<noteq> []"
    and "filter (\<lambda>c. \<not> cv_is_negotiable c \<and> \<not> cv_verified c)
           (map snd (constraint_verifications e)) = []"
  shows "all_critical_constraints_met (calculate_success_rates e)
     \<and> all_critical_constraints_met (determine_overall_status e)"
proof -
  from assms(2)
  have "\<forall>c\<in>set (map snd (constraint_verifications e)). \<not> cv_is_negotiable c \<longrightarrow> cv_verified c"
    by (auto simp: filter_empty_conv)
  with assms(1) show ?thesis
    by (simp only: determine_overall_status_flags calculate_success_rates_flag if_False simp_thms)
qed

text \<open>
  The scenario of the specification: one failing negotiable constraint beside a passing
  non-negotiable one. The flag is set although the constraint success rate is 50.
\<close>

theorem critical_constraints_gate_witness:
  "filter (\<lambda>c. \<not> cv_is_negotiable c) (map snd (constraint_verifications eval_gated)) \<noteq> []
   \<and> filter (\<lambda>c. \<not> cv_is_negotiable c \<and> \<not> cv_verified c)
        (map snd (constraint_verifications eval_gated)) = []
   \<and> all_critical_constraints_met (calculate_success_rates eval_gated)
   \<and> all_critical_constraints_met (determine_overall_status eval_gated)
   \<and> constraint_success_rate (calculate_success_rates eval_gated) = 50"
proof -
  have h1: "filter (\<lambda>c. \<not> cv_is_negotiable c) (map snd (constraint_verifications eval_gated)) \<noteq> []"
    by (simp add: demo_evaluations demo_constraint_fields)
  have h2: "filter (\<lambda>c. \<not> cv_is_negotiable c \<and> \<not> cv_verified c)
        (map snd (constraint_verifications eval_gated)) = []"
    by (simp add: demo_evaluations demo_constraint_fields)
  have r: "constraint_success_rate (calculate_success_rates eval_gated) = 50"
    by (simp add: calculate_success_rates_def calc_constraint_block_def Let_def
        calc_requirement_block_fields calc_kpi_block_fields demo_evaluations
        demo_constraint_fields)
  from critical_constraints_gate [OF h1 h2] h1 h2 r show ?thesis by blast
qed

text \<open>
  Against C2 as stated: with one failing negotiable constraint and no non-negotiable
  constraint at all, every non-negotiable verification held has verified true, the
  constraint success rate is below 100, and the flag stays false.
\<close>

theorem critical_constraints_gate_counterexample:
  "filter (\<lambda>c. \<not> cv_is_negotiable c \<and> \<not> cv_verified c)
       (map snd (constraint_verifications eval_negotiable_failing)) = []
   \<and> constraint_success_rate (calculate_success_rates eval_negotiable_failing) < 100
   \<and> \<not> all_critical_constraints_met (calculate_success_rates eval_negotiable_failing)
   \<and> \<not> all_critical_constraints_met (determine_overall_status eval_negotiable_failing)"
proof -
  have f: "\<not> all_critical_constraints_met (calculate_success_rates eval_negotiable_failing)"
    by (simp add: calculate_success_rates_flag demo_evaluations demo_constraint_fields)
  have r: "constraint_success_rate (calculate_success_rates eval_negotiable_failing) < 100"
    by (simp add: calculate_success_rates_def calc_constraint_block_def Let_def
        calc_requirement_block_fields calc_kpi_block_fields demo_evaluations
        demo_constraint_fields)
  from f r show ?thesis
    by (simp add: determine_overall_status_flags demo_evaluations demo_constraint_fields)
qed

lemma add_keeps_critical_flag:
  "all_critical_constraints_met (add_kpi_evaluation e k) = all_critical_constraints_met e"
  "all_critical_constraints_met (add_fom_evaluation e f) = all_critical_constraints_met e"
  "all_critical_constraints_met (add_requirement_verification e r) = all_critical_constraints_met e"
  "all_critical_constraints_met (add_constraint_verification e c) = all_critical_constraints_met e"
  by (simp_all add: add_kpi_evaluation_def add_fom_evaluation_def
      add_requirement_verification_def add_constraint_verification_def)

lemma calculate_success_rates_dicts:
  "constraint_verifications (calculate_success_rates e) = constraint_verifications e"
  "requirement_verifications (calculate_success_rates e) = requirement_verifications e"
  by (simp_all add: calculate_success_rates_def calc_constraint_block_def
      calc_requirement_block_def calc_kpi_block_def Let_def)

lemma calculate_success_rates_requirements:
  "all_requirements_met (calculate_success_rates e) =
     (if requirement_verifications e = [] then all_requirements_met e
      else (\<forall>r\<in>set (map snd (requirement_verifications e)). rv_verified r))"
  by (simp add: calculate_success_rates_def calc_constraint_block_def
      calc_requirement_block_def calc_kpi_block_def Let_def comp_def length_filter_eq_iff)

text \<open>
  Claim C9, as amended. When an evaluation holds no constraint verification, or only
  negotiable ones, \<^verbatim>\<open>calculate_success_rates\<close> and \<^verbatim>\<open>determine_overall_status\<close>
  leave \<^verbatim>\<open>all_critical_constraints_met\<close> as they find it. The constructor sets it
  to \<^verbatim>\<open>False\<close> and no \<^verbatim>\<open>add_\<close> method writes it; while it is \<^verbatim>\<open>False\<close>,
  \<^verbatim>\<open>determine_overall_status\<close> sets \<^verbatim>\<open>requirements_not_met\<close>, whatever
  \<^verbatim>\<open>all_requirements_met\<close> is.
\<close>

theorem no_critical_constraint_keeps_flag:
  assumes "filter (\<lambda>c. \<not> cv_is_negotiable c) (map snd (constraint_verifications e)) = []"
  shows "all_critical_constraints_met (calculate_success_rates e) = all_critical_constraints_met e
     \<and> all_critical_constraints_met (determine_overall_status e) = all_critical_constraints_met e
     \<and> (\<not> all_critical_constraints_met e \<longrightarrow>
          overall_status (determine_overall_status e) = REQUIREMENTS_NOT_MET)
     \<and> all_critical_constraints_met (SolutionEvaluation_init eid sid slabel now) = False
     \<and> all_critical_constraints_met (add_kpi_evaluation e k) = all_critical_constraints_met e
     \<and> all_critical_constraints_met (add_fom_evaluation e f) = all_critical_constraints_met e
     \<and> all_critical_constraints_met (add_requirement_verification e r)
         = all_critical_constraints_met e
     \<and> all_critical_constraints_met (add_constraint_verification e c)
         = all_critical_constraints_met e"
proof -
  from assms
  have u: "all_critical_constraints_met (calculate_success_rates e) = all_critical_constraints_met e"
    by (simp add: calculate_success_rates_flag)
  have i: "all_critical_constraints_met (SolutionEvaluation_init eid sid slabel now) = False"
    by (simp add: SolutionEvaluation_init_def)
  from u i show ?thesis
    by (simp add: determine_overall_status_flags determine_overall_status_status
        add_keeps_critical_flag)
qed

text \<open>
  An evaluation built by the constructor and two \<^verbatim>\<open>add_\<close> calls, whose one
  requirement is verified and whose one constraint is negotiable and passing: all
  requirements are met and the status is \<^verbatim>\<open>requirements_not_met\<close>.
\<close>

theorem no_critical_constraint_keeps_flag_witness:
  "filter (\<lambda>c. \<not> cv_is_negotiable c)
       (map snd (constraint_verifications eval_negotiable_only)) = []
   \<and> all_requirements_met (calculate_success_rates eval_negotiable_only)
   \<and> all_critical_constraints_met (calculate_success_rates eval_negotiable_only) = False
   \<and> overall_status (determine_overall_status eval_negotiable_only) = REQUIREMENTS_NOT_MET"
proof -
  have h: "filter (\<lambda>c. \<not> cv_is_negotiable c)
       (map snd (constraint_verifications eval_negotiable_only)) = []"
    by (simp add: demo_evaluations demo_constraint_fields)
  have f: "\<not> all_critical_constraints_met eval_negotiable_only"
    by (simp add: demo_evaluations)
  have r: "all_requirements_met (calculate_success_rates eval_negotiable_only)"
    by (simp add: calculate_success_rates_requirements demo_evaluations demo_requirement_def)
  from no_critical_constraint_keeps_flag [OF h] f h r show ?thesis by blast
qed

text \<open>
  Against C9 as stated: every constraint verification that \<open>eval_restored\<close> holds is
  negotiable, yet the flag is true after \<^verbatim>\<open>calculate_success_rates\<close> and the status
  becomes \<^verbatim>\<open>requirements_met\<close>: the flag was set by the earlier calculation and
  nothing resets it.
\<close>

theorem no_critical_constraint_stale_flag_counterexample:
  "filter (\<lambda>c. \<not> cv_is_negotiable c) (map snd (constraint_verifications eval_restored)) = []
   \<and> all_critical_constraints_met (calculate_success_rates eval_restored)
   \<and> overall_status (determine_overall_status eval_restored) = REQUIREMENTS_MET"
proof -
  let ?e0 = "add_constraint_verification
             (add_requirement_verification fresh_evaluation (demo_requirement True))
             (demo_constraint ''CON-001'' True False)"
  have c0: "constraint_verifications ?e0 = [(''CON-001'', demo_constraint ''CON-001'' True False)]"
    and r0: "requirement_verifications ?e0 = [(''REQ-001'', demo_requirement True)]"
    by (simp_all add: add_constraint_verification_def add_requirement_verification_def
        fresh_evaluation_def SolutionEvaluation_init_def demo_constraint_def
        demo_requirement_def)
  have f1: "all_critical_constraints_met (calculate_success_rates ?e0)"
    by (simp add: calculate_success_rates_flag c0 demo_constraint_fields)
  have cs: "constraint_verifications eval_restored =
      [(''CON-001'', demo_constraint ''CON-001'' False True)]"
    by (simp add: eval_restored_def add_constraint_verification_def
        add_requirement_verification_def calculate_success_rates_dicts
        fresh_evaluation_def SolutionEvaluation_init_def demo_constraint_def)
  have rs: "requirement_verifications eval_restored = [(''REQ-001'', demo_requirement True)]"
    by (simp add: eval_restored_def add_constraint_verification_def
        add_requirement_verification_def calculate_success_rates_dicts
        fresh_evaluation_def SolutionEvaluation_init_def demo_requirement_def)
  have fs: "all_critical_constraints_met eval_restored"
    using f1 by (simp add: eval_restored_def add_keeps_critical_flag)
  have h: "filter (\<lambda>c. \<not> cv_is_negotiable c) (map snd (constraint_verifications eval_restored)) = []"
    by (simp add: cs demo_constraint_fields)
  from h fs have g: "all_critical_constraints_met (calculate_success_rates eval_restored)"
    by (simp add: calculate_success_rates_flag)
  have rq: "all_requirements_met (calculate_success_rates eval_restored)"
    by (simp add: calculate_success_rates_requirements rs demo_requirement_def)
  from h g rq show ?thesis
    by (simp add: determine_overall_status_status)
qed

subsection \<open>Evaluating a solution of a mission\<close>


lemma evaluate_solution_unknown:
  "get_design_solution m sid = None \<Longrightarrow>
     evaluate_solution m sid now1 now2 now3 =
       Inl (ValueError (''Solution '' @ sid @ '' not found''))"
  by (simp add: evaluate_solution_def)

lemma demo_mission_solution:
  "get_design_solution demo_mission ''SOL-001'' = Some solution_iter1"
  by (simp add: get_design_solution_def demo_mission_def solution_iter1_def)

text \<open>
  Selecting a solution is where the status of a solution is written: the demonstration
  mission's one solution goes from \<^verbatim>\<open>proposed\<close> to \<^verbatim>\<open>selected\<close>.
\<close>

lemma set_selected_solution_demo:
  "map ds_status (design_solutions (set_selected_solution demo_mission ''SOL-001'' demo_time))
     = [SELECTED]"
  by (simp add: set_selected_solution_def demo_mission_solution)
     (simp add: demo_mission_def solution_iter1_def extract_def)




subsection \<open>Derived fields of an orbit\<close>

lemma float_cube_Inr:
  "float_cube x = Inr a3 \<Longrightarrow> a3 = float_underflow (x ^ 3)"
  by (auto simp: float_cube_def split: if_splits)

lemma float_underflow_nonzero:
  "float_underflow x \<noteq> 0 \<Longrightarrow> float_underflow x = x"
  by (auto simp: float_underflow_def split: if_splits)

text \<open>
  When the constructor returns, no step has underflowed: the period is not a zero, so
  neither the cube nor its quotient by \<^verbatim>\<open>EARTH_MU\<close> is, and both have their exact
  value.
\<close>

lemma derive_altitude_fields:
  "semi_major_axis (derive_altitude orb) = semi_major_axis orb"
  "eccentricity (derive_altitude orb) = eccentricity orb"
  "altitude (derive_altitude orb) =
     (if eccentricity orb < 0.001 \<and> altitude orb = None
      then Some (semi_major_axis orb - EARTH_RADIUS) else altitude orb)"
  by (simp_all add: derive_altitude_def)

lemma derive_apsides_fields:
  "semi_major_axis (derive_apsides orb) = semi_major_axis orb"
  "eccentricity (derive_apsides orb) = eccentricity orb"
  "altitude (derive_apsides orb) = altitude orb"
  by (simp_all add: derive_apsides_def)

lemma derive_period_Inr:
  assumes "derive_period orb = Inr orb'"
  shows "orb' = orb\<lparr>orbital_period := Some (2 * pi * sqrt (semi_major_axis orb ^ 3 / EARTH_MU) / 60),
                    mean_motion := Some (1440 / (2 * pi * sqrt (semi_major_axis orb ^ 3 / EARTH_MU) / 60))\<rparr>"
proof -
  define a where "a = semi_major_axis orb"
  define q where "q = float_underflow (float_underflow (a ^ 3) / EARTH_MU)"
  from assms obtain a3 where c: "float_cube a = Inr a3"
    unfolding derive_period_def a_def by (cases "float_cube (semi_major_axis orb)") simp_all
  from float_cube_Inr [OF c] have a3: "a3 = float_underflow (a ^ 3)" .
  have step: "derive_period orb =
       (if q < 0 then Inl (ValueError ''math domain error'')
        else if 2 * pi * sqrt q / 60 = 0 then Inl ZeroDivisionError
        else Inr (orb\<lparr>orbital_period := Some (2 * pi * sqrt q / 60),
                      mean_motion := Some (1440 / (2 * pi * sqrt q / 60))\<rparr>))"
    unfolding derive_period_def a_def [symmetric] c a3
    by (simp only: sum.case Let_def q_def)
  from assms step have nz: "2 * pi * sqrt q / 60 \<noteq> 0"
    and res: "orb' = orb\<lparr>orbital_period := Some (2 * pi * sqrt q / 60),
                      mean_motion := Some (1440 / (2 * pi * sqrt q / 60))\<rparr>"
    by (simp_all split: if_splits)
  from nz have qz: "q \<noteq> 0" by auto
  then have q1: "q = float_underflow (a ^ 3) / EARTH_MU"
    unfolding q_def by (rule float_underflow_nonzero)
  with qz have "float_underflow (a ^ 3) \<noteq> 0" by auto
  then have "float_underflow (a ^ 3) = a ^ 3" by (rule float_underflow_nonzero)
  with q1 have "q = a ^ 3 / EARTH_MU" by simp
  with res show ?thesis by (simp only: a_def)
qed

lemma Orbit_post_init_Inr:
  assumes "Orbit_post_init orb = Inr orb'"
  shows "orbital_period orb' = Some (2 * pi * sqrt (semi_major_axis orb ^ 3 / EARTH_MU) / 60)"
    and "mean_motion orb' = Some (1440 / (2 * pi * sqrt (semi_major_axis orb ^ 3 / EARTH_MU) / 60))"
    and "altitude orb' =
           (if eccentricity orb < 0.001 \<and> altitude orb = None
            then Some (semi_major_axis orb - EARTH_RADIUS) else altitude orb)"
    and "semi_major_axis orb' = semi_major_axis orb"
    and "eccentricity orb' = eccentricity orb"
  using derive_period_Inr [OF assms [unfolded Orbit_post_init_def]]
  by (simp_all add: derive_apsides_fields derive_altitude_fields)

text \<open>
  The constructor returns for every semi-major axis from 1 km to \<open>10\<^sup>1\<^sup>0\<^sup>0\<close> km, and
  raises for one that is zero or whose cube is too large.
\<close>

lemma derive_period_returns:
  assumes "1 \<le> semi_major_axis orb" and "semi_major_axis orb \<le> 10 ^ 100"
  shows "\<exists>orb'. derive_period orb = Inr orb'"
proof -
  define a where "a = semi_major_axis orb"
  from assms have a1: "1 \<le> a" and a2: "a \<le> 10 ^ 100" by (simp_all add: a_def)
  from a1 have lo: "1 \<le> a ^ 3" by simp
  from a1 a2 have hi: "a ^ 3 \<le> (10 ^ 100) ^ 3" by (intro power_mono) simp_all
  have big: "((10::real) ^ 100) ^ 3 < 2 ^ 1024 - 2 ^ 970" by simp
  from lo hi big have "\<bar>a ^ 3\<bar> < 2 ^ 1024 - 2 ^ 970" by linarith
  then have no: "\<not> float_overflows (a ^ 3)"
    by (simp only: float_overflows_def not_le)
  have s1: "(1::real) / 2 ^ 1075 < 1" by simp
  with lo have "\<not> \<bar>a ^ 3\<bar> \<le> 1 / 2 ^ 1075" by linarith
  then have u3: "float_underflow (a ^ 3) = a ^ 3"
    by (simp only: float_underflow_def if_False)
  from no u3 have c: "float_cube a = Inr (a ^ 3)"
    by (simp only: float_cube_def if_False)
  have small: "(1::real) / 2 ^ 1075 < 1 / EARTH_MU" by (simp add: EARTH_MU_def)
  have mu: "0 < EARTH_MU" by (simp add: EARTH_MU_def)
  from lo mu have "1 / EARTH_MU \<le> a ^ 3 / EARTH_MU"
    by (intro divide_right_mono) simp_all
  with small have qlo: "1 / 2 ^ 1075 < a ^ 3 / EARTH_MU" by linarith
  from lo have "0 < a ^ 3" by linarith
  then have qpos: "0 < a ^ 3 / EARTH_MU" using mu by (rule divide_pos_pos)
  from qlo qpos have "\<not> \<bar>a ^ 3 / EARTH_MU\<bar> \<le> 1 / 2 ^ 1075" by linarith
  then have uq: "float_underflow (a ^ 3 / EARTH_MU) = a ^ 3 / EARTH_MU"
    by (simp only: float_underflow_def if_False)
  from qpos have nn: "\<not> a ^ 3 / EARTH_MU < 0" by simp
  from qpos have sp: "0 < sqrt (a ^ 3 / EARTH_MU)"
    by (simp only: real_sqrt_gt_0_iff)
  have "0 < 2 * pi" using pi_gt_zero by linarith
  from this sp have "0 < 2 * pi * sqrt (a ^ 3 / EARTH_MU)" by (rule mult_pos_pos)
  then have "0 < 2 * pi * sqrt (a ^ 3 / EARTH_MU) / 60" by (intro divide_pos_pos) simp_all
  then have pz: "2 * pi * sqrt (a ^ 3 / EARTH_MU) / 60 \<noteq> 0" by linarith
  show ?thesis
    unfolding derive_period_def a_def [symmetric] c
    by (simp only: sum.case Let_def uq nn pz if_False) blast
qed

lemma Orbit_post_init_returns:
  assumes "1 \<le> semi_major_axis orb" and "semi_major_axis orb \<le> 10 ^ 100"
  shows "\<exists>orb'. Orbit_post_init orb = Inr orb'"
  unfolding Orbit_post_init_def
  by (rule derive_period_returns)
     (simp_all only: derive_apsides_fields derive_altitude_fields assms)

lemma Orbit_post_init_raises:
  "semi_major_axis orb = 0 \<Longrightarrow> Orbit_post_init orb = Inl ZeroDivisionError"
  "float_overflows (semi_major_axis orb ^ 3) \<Longrightarrow> Orbit_post_init orb = Inl OverflowError"
  by (simp_all add: Orbit_post_init_def derive_period_def float_cube_def float_underflow_def
      float_overflows_def derive_apsides_fields derive_altitude_fields)

text \<open>
  Semi-major axes for which the constructor raises: a cube too large for a double, a cube
  that underflows to a zero of either sign, and a negative cube.
\<close>

lemma Orbit_post_init_range_examples:
  "Orbit_post_init ((orbit_iter1 None)\<lparr>semi_major_axis := 10 ^ 103\<rparr>) = Inl OverflowError"
  "Orbit_post_init ((orbit_iter1 None)\<lparr>semi_major_axis := 1 / 10 ^ 120\<rparr>) = Inl ZeroDivisionError"
  "Orbit_post_init ((orbit_iter1 None)\<lparr>semi_major_axis := - (1 / 10 ^ 120)\<rparr>) = Inl ZeroDivisionError"
  "Orbit_post_init ((orbit_iter1 None)\<lparr>semi_major_axis := - 7000\<rparr>)
     = Inl (ValueError ''math domain error'')"
  by (simp_all add: Orbit_post_init_def derive_period_def derive_apsides_def
      derive_altitude_def float_cube_def float_underflow_def float_overflows_def
      orbit_iter1_def EARTH_MU_def Let_def power_divide)

text \<open>
  Claim C7, as amended. For every Orbit that its constructor returns, with semi-major
  axis \<open>a\<close>, \<^verbatim>\<open>orbital_period\<close> is \<open>2\<pi>\<surd>(a\<^sup>3/398600.4418)/60\<close> and
  \<^verbatim>\<open>mean_motion\<close> is 1440 divided by it. When the eccentricity is below 0.001 and the
  caller supplied no altitude, \<^verbatim>\<open>altitude\<close> is \<open>a - 6378.137\<close>; an altitude the caller
  supplied is kept, as is the altitude of an orbit of eccentricity 0.001 or more.
\<close>

theorem Orbit_post_init_derived:
  assumes "Orbit_post_init orb = Inr orb'"
  shows "orbital_period orb' = Some (2 * pi * sqrt (semi_major_axis orb ^ 3 / 398600.4418) / 60)
     \<and> mean_motion orb' =
         Some (1440 / (2 * pi * sqrt (semi_major_axis orb ^ 3 / 398600.4418) / 60))
     \<and> (eccentricity orb < 0.001 \<and> altitude orb = None \<longrightarrow>
          altitude orb' = Some (semi_major_axis orb - 6378.137))
     \<and> (altitude orb \<noteq> None \<or> \<not> eccentricity orb < 0.001 \<longrightarrow> altitude orb' = altitude orb)
     \<and> semi_major_axis orb' = semi_major_axis orb \<and> eccentricity orb' = eccentricity orb"
  using Orbit_post_init_Inr [OF assms]
  by (auto simp: EARTH_MU_def EARTH_RADIUS_def)

theorem Orbit_post_init_derived_witness:
  "map_sum id altitude (Orbit_post_init (orbit_iter1 None)) = Inr (Some 705)
   \<and> map_sum id orbital_period (Orbit_post_init (orbit_iter1 None))
       = Inr (Some (2 * pi * sqrt (7083.137 ^ 3 / 398600.4418) / 60))
   \<and> map_sum id mean_motion (Orbit_post_init (orbit_iter1 None))
       = Inr (Some (1440 / (2 * pi * sqrt (7083.137 ^ 3 / 398600.4418) / 60)))"
proof -
  have "\<exists>orb'. Orbit_post_init (orbit_iter1 None) = Inr orb'"
    by (rule Orbit_post_init_returns) (simp_all add: orbit_iter1_def)
  then obtain orb' where h: "Orbit_post_init (orbit_iter1 None) = Inr orb'" by blast
  from Orbit_post_init_derived [OF h] h show ?thesis
    by (simp add: orbit_iter1_def)
qed

text \<open>
  Against C7 as stated: a circular orbit constructed with the altitude 500 keeps it,
  205 km away from \<open>semi_major_axis - 6378.137\<close>.
\<close>

theorem Orbit_altitude_counterexample:
  "eccentricity (orbit_iter1 (Some 500)) < 0.001
   \<and> map_sum id altitude (Orbit_post_init (orbit_iter1 (Some 500))) = Inr (Some 500)
   \<and> \<not> \<bar>500 - (semi_major_axis (orbit_iter1 (Some 500)) - 6378.137)\<bar> \<le> 1 / 10 ^ 9"
proof -
  have "\<exists>orb'. Orbit_post_init (orbit_iter1 (Some 500)) = Inr orb'"
    by (rule Orbit_post_init_returns) (simp_all add: orbit_iter1_def)
  then obtain orb' where h: "Orbit_post_init (orbit_iter1 (Some 500)) = Inr orb'" by blast
  from Orbit_post_init_Inr(3) [OF h] h
  have "map_sum id altitude (Orbit_post_init (orbit_iter1 (Some 500))) = Inr (Some 500)"
    by (simp add: orbit_iter1_def)
  then show ?thesis by (simp add: orbit_iter1_def)
qed

subsection \<open>Ground sample distance of a payload instrument\<close>

lemma calculate_gsd_formula:
  assumes "focal_length p > 0" and "pixel_pitch p > 0"
  shows "fst (calculate_gsd_from_orbit p altitude_km) =
           (altitude_km * 1000 * pixel_pitch p * (1 / 10 ^ 6)) / focal_length p"
    and "ground_sample_distance (snd (calculate_gsd_from_orbit p altitude_km)) =
           fst (calculate_gsd_from_orbit p altitude_km)"
  using assms by (simp_all add: calculate_gsd_from_orbit_def Let_def)

lemma calculate_gsd_unchanged:
  "\<not> (focal_length p > 0 \<and> pixel_pitch p > 0) \<Longrightarrow>
     calculate_gsd_from_orbit p altitude_km = (ground_sample_distance p, p)"
  by (auto simp: calculate_gsd_from_orbit_def Let_def)

text \<open>
  Claim C8, as amended. For a PayloadInstrument with focal length 1.85 m and pixel pitch
  13.0 micrometres, \<^verbatim>\<open>calculate_gsd_from_orbit\<close> at the altitude 705 km returns
  \<open>705000 \<cdot> 13 \<cdot> 10\<^sup>-\<^sup>6 / 1.85\<close>, which is 4.954 m to within a millimetre, and stores
  it as the ground sample distance of the instrument.
\<close>

theorem calculate_gsd_demo_value:
  assumes "focal_length p = 1.85" and "pixel_pitch p = 13"
  shows "fst (calculate_gsd_from_orbit p 705) = (705 * 1000 * 13 * (1 / 10 ^ 6)) / 1.85
     \<and> \<bar>fst (calculate_gsd_from_orbit p 705) - 4.954\<bar> < 0.001
     \<and> ground_sample_distance (snd (calculate_gsd_from_orbit p 705)) =
         fst (calculate_gsd_from_orbit p 705)"
proof -
  have pos: "focal_length p > 0" "pixel_pitch p > 0" using assms by simp_all
  have "fst (calculate_gsd_from_orbit p 705) =
          (705 * 1000 * pixel_pitch p * (1 / 10 ^ 6)) / focal_length p"
    by (rule calculate_gsd_formula(1) [OF pos])
  then have v: "fst (calculate_gsd_from_orbit p 705) = (705 * 1000 * 13 * (1 / 10 ^ 6)) / 1.85"
    by (simp only: assms)
  then have "\<bar>fst (calculate_gsd_from_orbit p 705) - 4.954\<bar> < 0.001" by simp
  with v calculate_gsd_formula(2) [OF pos, of 705] show ?thesis by blast
qed

theorem calculate_gsd_demo_value_witness:
  "focal_length payload_15m = 1.85 \<and> pixel_pitch payload_15m = 13
   \<and> \<bar>fst (calculate_gsd_from_orbit payload_15m 705) - 4.954\<bar> < 0.001"
proof -
  have f: "focal_length payload_15m = 1.85" and p: "pixel_pitch payload_15m = 13"
    by (simp_all add: payload_15m_def)
  from calculate_gsd_demo_value [OF f p] f p show ?thesis by blast
qed

text \<open>
  Against C8 as stated: for the payload of the demonstration the result is
  \<open>1833/370\<close>, more than 8 m away from 13.9 m.
\<close>

theorem calculate_gsd_counterexample:
  "focal_length payload_15m = 1.85 \<and> pixel_pitch payload_15m = 13
   \<and> fst (calculate_gsd_from_orbit payload_15m 705) = 1833 / 370
   \<and> \<not> \<bar>fst (calculate_gsd_from_orbit payload_15m 705) - 13.9\<bar> < 8"
  by (simp add: calculate_gsd_from_orbit_def Let_def payload_15m_def)

end
